theory Spec2Isabelle
  imports Complex_Main "HOL-Library.Sublist"
begin

section \<open>The work catalog of the portfolio site (\<^verbatim>\<open>src/app/@content/works/data.ts\<close>)\<close>

text \<open>
  The module is a typed object literal, \<^verbatim>\<open>workDetailsData\<close>, three image builders that
  are used while the literal is built, and a handful of accessors over it. The functions
  are pure, so every TypeScript function is a HOL function of the same name, and the
  module-level constants are HOL constants: the values they have when the module has
  been evaluated. What distinguishes a constant initialised at load from a function
  that reads the catalog at each call shows only once the catalog object changes; the
  module state at the end of the definitions makes that explicit.

  Conventions of the embedding.
  \<^item> A JavaScript string is a \<^typ>\<open>string\<close>. The literals of the source are ASCII but for
    the dash U+2014 and the letter U+00E9 in four long paragraphs; these are written as
    their UTF-8 bytes. The module only concatenates strings and compares them for
    equality, and both are preserved by the encoding.
  \<^item> An optional field or an optional argument is an \<^typ>\<open>'a option\<close>: \<^term>\<open>None\<close> is
    a field that the object does not have, or an argument that is \<^verbatim>\<open>undefined\<close>.
  \<^item> An object with string keys is an association list in insertion order, with
    distinct keys.
  \<^item> Names of the source that are constants of HOL already, or that two object types
    share, carry an affix: the field \<^verbatim>\<open>id\<close> of a work is \<open>id_field\<close>, the fields of a
    listing entry are \<open>summary_id\<close>, \<open>summary_title\<close>, \<open>summary_description\<close> and
    \<open>summary_image\<close>, and the arguments of the builders are primed because the fields
    they fill have their names.
\<close>

subsection \<open>Numbers and their truthiness\<close>

text \<open>
  \<^verbatim>\<open>width\<close> and \<^verbatim>\<open>height\<close> have the type \<^verbatim>\<open>number\<close>, an IEEE double. The builder only
  tests a number for truthiness and stores it, so a number is modelled by its value:
  not-a-number, an infinity, or a finite value, which is a real (every finite double is
  one; the two zeros, both falsy, are the one real zero). A number is falsy exactly when
  it is zero or not-a-number.
\<close>

datatype number = NaN | PosInfinity | NegInfinity | Finite real

fun truthy :: "number \<Rightarrow> bool" where
  "truthy NaN = False"
| "truthy PosInfinity = True"
| "truthy NegInfinity = True"
| "truthy (Finite x) = (x \<noteq> 0)"

subsection \<open>Types\<close>

record WorkImage =
  src :: string
  srcSet :: "string option"
  alt :: string
  width :: "number option"
  height :: "number option"
  sizes :: "string option"

record WorkAbout =
  client :: string
  contribution :: string
  year :: string

datatype Category = Products | Uiux | ThreeD

record WorkDetail =
  id_field :: string
  title :: string
  description :: string
  category :: Category
  thumbnailImage :: string
  heroImage :: WorkImage
  secondaryImage :: WorkImage
  about :: WorkAbout
  fullDescription :: string
  processImage :: WorkImage
  problemTitle :: string
  problemDescription :: "string list"
  solutionTitle :: string
  solutionDescription :: "string list"
  closingImage :: WorkImage
  externalLink :: "string option"

text \<open>The element type of \<^verbatim>\<open>worksData\<close>, an object literal with four fields.\<close>

record WorkSummary =
  summary_id :: string
  summary_title :: string
  summary_description :: string
  summary_image :: string

subsection \<open>Image builders\<close>

text \<open>
  \<^verbatim>\<open>generateSrcSet\<close> is one template literal: the source five times, each followed by
  fixed text.
\<close>

definition generateSrcSet :: "string \<Rightarrow> string" where
  "generateSrcSet src' =
     src' @ ''?scale-down-to=512 512w,'' @
     src' @ ''?scale-down-to=1024 1024w,'' @
     src' @ ''?scale-down-to=2048 2048w,'' @
     src' @ ''?scale-down-to=4096 4096w,'' @
     src' @ '' 4500w''"

text \<open>
  \<^verbatim>\<open>...(width && { width })\<close>: the conjunction is \<^verbatim>\<open>{ width }\<close> when \<^verbatim>\<open>width\<close> is truthy
  and \<^verbatim>\<open>width\<close> itself (\<^verbatim>\<open>undefined\<close>, zero or not-a-number) otherwise, and spreading one
  of the latter adds no field.
\<close>

definition spread_truthy :: "number option \<Rightarrow> number option" where
  "spread_truthy v = (case v of None \<Rightarrow> None | Some n \<Rightarrow> if truthy n then Some n else None)"

definition createWorkImage ::
  "string \<Rightarrow> string \<Rightarrow> number option \<Rightarrow> number option \<Rightarrow> WorkImage" where
  "createWorkImage src' alt' width' height' = \<lparr>
     src = src',
     srcSet = Some (generateSrcSet src'),
     alt = alt',
     width = spread_truthy width',
     height = spread_truthy height',
     sizes = Some ''calc(100vw - 24px)'' \<rparr>"

definition createHeroImage :: "string \<Rightarrow> string \<Rightarrow> WorkImage" where
  "createHeroImage src' alt' = createWorkImage src' alt' (Some (Finite 2400)) (Some (Finite 1600))"

definition createSecondaryImage :: "string \<Rightarrow> string \<Rightarrow> WorkImage" where
  "createSecondaryImage src' alt' = createWorkImage src' alt' None None"

subsection \<open>The catalog\<close>

text \<open>
  The five entries of the literal, each under the name of its key (with \<open>_\<close> for \<open>-\<close>),
  and the literal itself, in the order of the source.
\<close>

definition corevia_financial_platform :: WorkDetail where
  "corevia_financial_platform = \<lparr>
    id_field = ''corevia-financial-platform'',
    title = ''Corevia Financial Management Platform'',
    description = ''Modern financial consulting website with comprehensive service pages and responsive design.'',
    category = Products,
    thumbnailImage = ''https://cdn.prod.website-files.com/687a676ef5e70f7d641d3080/687ff334971f215c6e7c3f51_LogoCorevia.svg'',
    heroImage = createHeroImage
      ''/Coreva/work/Hero_image.png''
      ''Corevia Financial Platform Hero'',
    secondaryImage = createSecondaryImage
      ''/Coreva/work/Secondary.png''
      ''Corevia Multi-Page Interface'',
    about = \<lparr>
      client = ''Corevia Consulting'',
      contribution = ''Frontend Development, UI Implementation, Responsive Design'',
      year = ''2024'' \<rparr>,
    fullDescription = ''A comprehensive financial management platform built for Corevia Consulting, featuring multiple service pages including Home, About, Features, Pricing, Blog, and Contact. The platform showcases financial analytics tools, investment management services, and digital transformation solutions. Built with modern web technologies to deliver a seamless user experience across all devices with intuitive navigation and engaging visual design.'',
    processImage = createSecondaryImage
      ''/Coreva/work/processing.png''
      ''Corevia Development Process'',
    problemTitle = ''The Challenge'',
    problemDescription = [''Corevia Consulting needed a professional digital presence to showcase their financial management and consulting services to potential clients. The challenge was to create a scalable, multi-page website that could effectively communicate complex financial concepts while maintaining an approachable and modern aesthetic. The platform needed to serve diverse audiences including small businesses, growing teams, and enterprise clients.'',
      (''The website required clear presentation of service offerings across budgeting tools, investment management, digital transformation consulting, and market expansion strategies. Additionally, the platform needed to include comprehensive pricing tiers, client testimonials, blog functionality for thought leadership content, and contact forms for lead generation''
      @ [CHR 0xE2, CHR 0x80, CHR 0x94]
      @ ''all while maintaining consistent branding and optimal performance across desktop, tablet, and mobile devices.'')],
    solutionTitle = ''The Solution'',
    solutionDescription = [''Built with Next.js 16 and TypeScript, leveraging the App Router architecture for optimal performance and SEO capabilities. Implemented a component-based architecture with dedicated page sections for hero, about, benefits, features, core capabilities, pricing, testimonials, blog preview, and call-to-action modules. Created seven distinct pages (Home, About, Features, Pricing, Blog, Blog Detail, Contact) with consistent navigation and footer components.'',
      ''Designed a modular component system with reusable elements across landing, feature, pricing, blog, and contact sections. Implemented responsive layouts using Tailwind CSS for consistent styling and mobile-first design principles. Created three-tier pricing structure (Starter, Growth, Scale plans) with detailed feature comparisons, animated scroll effects for enhanced user engagement, and optimized image carousels showcasing platform capabilities. Deployed on Netlify for reliable hosting with continuous deployment integration.''],
    closingImage = createHeroImage
      ''/Coreva/work/footerimage.png''
      ''Corevia Platform Final Product'',
    externalLink = Some ''https://corevias.netlify.app/'' \<rparr>"

definition landscapo_architecture_platform :: WorkDetail where
  "landscapo_architecture_platform = \<lparr>
    id_field = ''landscapo-architecture-platform'',
    title = ''Landscapo Architecture & Design Platform'',
    description = ''Professional architecture portfolio website showcasing innovative design solutions with comprehensive project galleries and service offerings.'',
    category = Products,
    thumbnailImage = ''/Landscape/landscapo-logo.svg'',
    heroImage = createHeroImage
      ''/Landscape/work/Hero.png''
      ''Landscapo Architecture Platform Hero'',
    secondaryImage = createSecondaryImage
      ''/Landscape/work/Secondary.png''
      ''Landscapo Project Showcase Interface'',
    about = \<lparr>
      client = ''Landscapo Architecture Studio'',
      contribution = ''Full-Stack Development, UI/UX Implementation, Animation Integration'',
      year = ''2024'' \<rparr>,
    fullDescription = ''A comprehensive architecture and design portfolio platform built for Landscapo Studio, featuring dynamic project galleries across multiple categories including Urban, Interior, Corporate, and Residential designs. The platform showcases over 50 completed projects with detailed case studies, expert team profiles, and service offerings. Built with modern web technologies including Next.js and Framer Motion to deliver smooth animations and seamless user experience across all devices, highlighting the studio's expertise in innovative architectural solutions and sustainable design practices.'',
    processImage = createSecondaryImage
      ''/Landscape/work/Processing.png''
      ''Landscapo Development Process'',
    problemTitle = ''The Challenge'',
    problemDescription = [''Landscapo Architecture Studio needed a sophisticated digital platform to showcase their extensive portfolio of architectural projects and establish their brand presence in the competitive architecture and design market. The challenge was to create a visually stunning, multi-page website that could effectively present complex architectural concepts, project galleries, and design philosophies while maintaining fast load times and smooth interactions. The platform needed to serve diverse audiences including potential clients, industry partners, and design enthusiasts.'',
      (''The website required seamless presentation of project portfolios across multiple categories (Urban, Interior, Corporate, Residential) with high-quality imagery, detailed project specifications, and interactive galleries. Additionally, the platform needed to communicate the studio's impressive metrics''
      @ [CHR 0xE2, CHR 0x80, CHR 0x94]
      @ ''50+ completed projects, 100+ expert team members, and $3.5M in project value''
      @ [CHR 0xE2, CHR 0x80, CHR 0x94]
      @ ''while incorporating engaging animations, FAQ sections for client inquiries, and clear service descriptions. All of this needed to work flawlessly across desktop, tablet, and mobile devices with intuitive navigation and fast performance.'')],
    solutionTitle = ''The Solution'',
    solutionDescription = [''Built with Next.js 14 and TypeScript, leveraging the App Router architecture for optimal performance and SEO capabilities. Implemented Framer Motion for sophisticated scroll-triggered animations and smooth page transitions that enhance the visual storytelling of architectural projects. Created a component-based architecture with dedicated sections for hero presentations, metrics showcase, project galleries, experience highlights, FAQ modules, and call-to-action components. Developed dynamic routing for individual project pages with detailed property information, overview sections, and image galleries.'',
      ''Designed a modular component system with reusable elements across landing, project, service, about, and contact sections. Implemented responsive layouts using Tailwind CSS for consistent styling and mobile-first design principles. Created an intuitive project categorization system (Urbano, Interior, Corporate) with filtering capabilities and smooth transitions between views. Integrated interactive FAQ accordion components, animated metric counters, and optimized image carousels showcasing architectural designs. Deployed on Netlify for reliable hosting with continuous deployment integration and optimal asset delivery.''],
    closingImage = createHeroImage
      ''/Landscape/work/Footer.png''
      ''Landscapo Platform Final Product'',
    externalLink = Some ''https://landscapo.netlify.app/'' \<rparr>"

definition stayli_vacation_rental_platform :: WorkDetail where
  "stayli_vacation_rental_platform = \<lparr>
    id_field = ''stayli-vacation-rental-platform'',
    title = ''Stayli Vacation Rental Platform'',
    description = ''Modern vacation rental marketplace connecting travelers with extraordinary stays worldwide, featuring property listings and seamless booking experience.'',
    category = Products,
    thumbnailImage = ''https://cdn.prod.website-files.com/6811ad3e11282304843a1ca2/6811ad3e11282304843a1e18_stayli-black-logo.svg'',
    heroImage = createHeroImage
      ''/Realestate/work/Hero.png''
      ''Stayli Platform Hero'',
    secondaryImage = createSecondaryImage
      ''/Realestate/work/secondary.png''
      ''Stayli Property Listings Interface'',
    about = \<lparr>
      client = ''Stayli'',
      contribution = ''Full-Stack Development, UI/UX Implementation, Dynamic Routing'',
      year = ''2024'' \<rparr>,
    fullDescription = ''A comprehensive vacation rental platform built for Stayli, featuring multiple pages including Home, About, Listings, Property Details, and Contact. The platform showcases curated vacation rentals ranging from urban lofts to beachfront villas, mountain cabins, and luxury suites. Built with Next.js App Router architecture to deliver dynamic property browsing, detailed listing pages with image galleries, amenity showcases, and integrated booking forms. The platform serves diverse travelers seeking budget-friendly options to high-end luxury retreats with intuitive search and filtering capabilities.'',
    processImage = createSecondaryImage
      ''/Realestate/work/Processing.png''
      ''Stayli Development Process'',
    problemTitle = ''The Challenge'',
    problemDescription = [(''Stayli needed a digital marketplace to bridge the gap between travelers seeking unique accommodations and property owners offering exceptional stays. The challenge was to create a scalable platform that could effectively showcase diverse property types''
      @ [CHR 0xE2, CHR 0x80, CHR 0x94]
      @ ''from $95 mountain cabins to $210 beachfront suites''
      @ [CHR 0xE2, CHR 0x80, CHR 0x94]
      @ ''while maintaining consistent user experience across property categories. The platform needed to handle dynamic routing for individual property pages, support multiple property attributes (bedrooms, guests, pricing, ratings), and present complex information in an accessible format.''),
      (''The website required clear presentation of property features including high-quality image galleries, detailed amenities lists, room type variations, location information, and guest reviews. Additionally, the platform needed FAQ sections for customer support, testimonial displays for social proof, destination exploration features, and contact forms for inquiries''
      @ [CHR 0xE2, CHR 0x80, CHR 0x94]
      @ ''all while maintaining optimal performance with image optimization, responsive design across all devices, and SEO-friendly architecture for property discoverability.'')],
    solutionTitle = ''The Solution'',
    solutionDescription = [''Built with Next.js 14 and TypeScript, leveraging the App Router with dynamic routing patterns ([slug]) for scalable property detail pages. Implemented a robust data architecture using TypeScript interfaces for type-safe property management, including PropertyImage, PropertyAmenity, and Property models with comprehensive attributes (pricing, ratings, reviews, features, amenities). Created five core pages (Home, About, Listings, Property Detail, Contact) with dedicated component architecture for landing sections, listing displays, and property showcases.'',
      ''Designed a modular component system with reusable elements across hero sections, destination cards, testimonial displays, FAQ accordions, and call-to-action modules. Implemented responsive image handling with srcSet and sizes attributes for optimal loading performance across devices. Created dynamic property filtering by location, floor, size, and bedrooms with real-time search capabilities. Integrated property rating system (5-star reviews), discount badges, and multi-image carousels for property galleries. Deployed on Netlify with continuous deployment, achieving fast load times and seamless navigation between property listings and detail pages.''],
    closingImage = createHeroImage
      ''/Realestate/work/Footer.png''
      ''Stayli Platform Final Product'',
    externalLink = Some ''https://realsttate.netlify.app/'' \<rparr>"

definition elev8_rwanda_website :: WorkDetail where
  "elev8_rwanda_website = \<lparr>
    id_field = ''elev8-rwanda-website'',
    title = ''Elev8 Rwanda Corporate Website'',
    description = ''Multi-brand corporate website with CMS integration and internationalization.'',
    category = Products,
    thumbnailImage = ''/Elev8/Elev8-logo-dark.svg'',
    heroImage = createHeroImage
      ''/Elev8/work/Heroimage.png''
      ''Elev8 Rwanda Website Hero'',
    secondaryImage = createSecondaryImage
      ''/Elev8/work/secondaryImage.png''
      ''Elev8 Rwanda Multi-Brand Interface'',
    about = \<lparr>
      client = ''Elev8 Rwanda'',
      contribution = ''Full-Stack Development, UI/UX Design, CMS Integration'',
      year = ''2024'' \<rparr>,
    fullDescription = ''A comprehensive corporate website built for Elev8 Rwanda, featuring two distinct sub-brands: Elev8 Media (digital marketing and media production) and Elev8 Moments (event planning and management). The platform integrates Sanity CMS for dynamic content management, supports three languages (English, French, Arabic), and includes a complete blog system with category filtering and detailed post pages.'',
    processImage = createSecondaryImage
      ''/Elev8/work/processimage.png''
      ''Elev8 Development Process'',
    problemTitle = ''The Challenge'',
    problemDescription = [''Elev8 Rwanda needed a unified digital presence that could effectively showcase two distinct sub-brands while maintaining a cohesive corporate identity. The challenge was to create a scalable platform that could handle multilingual content, dynamic service offerings, and portfolio showcases for both media production and event management services.'',
      ''The website needed to serve multiple audiences: potential clients seeking media services, event planning customers, blog readers, and business partners. Additionally, the content team required an intuitive CMS to manage services, team members, testimonials, blog posts, and brand-specific portfolios without technical knowledge.''],
    solutionTitle = ''The Solution'',
    solutionDescription = [''Built with Next.js 14 and TypeScript, leveraging App Router for optimal performance and SEO. Integrated Sanity CMS with custom schema types for flexible content management across home pages, services, brands, team members, testimonials, and blog posts. Implemented a robust internationalization system supporting English, French, and Arabic with locale-specific routing.'',
      ''Designed a modular component architecture with 12+ reusable home sections including hero, services, stats, testimonials, team showcase, blog preview, and newsletter subscription. Created dedicated brand pages for Elev8 Media and Elev8 Moments with unique service packages, portfolio galleries, and event type showcases. Implemented dark mode support with next-themes and built a comprehensive UI component library using Radix UI and Tailwind CSS for consistent design across all pages.''],
    closingImage = createHeroImage
      ''/Elev8/work/ClosingImage.png''
      ''Elev8 Rwanda Final Product'',
    externalLink = Some ''https://www.elev8rwanda.com/en'' \<rparr>"

definition elev8_moments_event_design :: WorkDetail where
  "elev8_moments_event_design = \<lparr>
    id_field = ''elev8-moments-event-design'',
    title = ''Elev8 Moments - Event Design Platform'',
    description = ''Full-service event design and workshop platform for creating intentional, memorable experiences.'',
    category = Products,
    thumbnailImage = ''/Elev8-Moments/Elev8-logo-moment-dark.svg'',
    heroImage = createHeroImage
      ''/Elev8-Moments/work/hero%20image.png''
      ''Elev8 Moments Event Design Platform'',
    secondaryImage = createSecondaryImage
      ''/Elev8-Moments/work/secondary%20image.png''
      ''Event Design Gallery View'',
    about = \<lparr>
      client = ''Elev8 Moments'',
      contribution = ''Full-Stack Development, UI/UX Design, Brand Integration'',
      year = ''2024'' \<rparr>,
    fullDescription = ''Elev8 Moments is a comprehensive digital platform designed to showcase and manage premium event design services, creative workshops, and thoughtful gifting solutions. The platform serves as both a portfolio and booking system for clients seeking intentionally curated experiences that foster connection, celebration, and meaningful moments.'',
    processImage = createSecondaryImage
      ''/Elev8-Moments/work/process%20image.png''
      ''Development Process'',
    problemTitle = ''The Challenge'',
    problemDescription = [(''Event design businesses often struggle to effectively showcase their diverse service offerings''
      @ [CHR 0xE2, CHR 0x80, CHR 0x94]
      @ ''from event setup and d''
      @ [CHR 0xC3, CHR 0xA9]
      @ ''cor to creative workshops and corporate gifting''
      @ [CHR 0xE2, CHR 0x80, CHR 0x94]
      @ ''in a cohesive digital experience. Traditional websites fail to capture the emotional essence and attention to detail that defines premium event services.''),
      ''The client needed a platform that could elegantly present multiple service categories (Event Design, Experiences & Workshops, Thoughtful Gifting) while maintaining a luxurious, intentional brand identity. The challenge was creating an intuitive navigation system that guides visitors through various offerings without overwhelming them, while also showcasing a dynamic image gallery that demonstrates the quality and creativity of their work.''],
    solutionTitle = ''The Solution'',
    solutionDescription = [''Built with Next.js 14 and TypeScript, the platform leverages modern React patterns and server-side rendering for optimal performance and SEO. The architecture features a modular component system with dedicated route sections for each service category, ensuring scalability and maintainability as the business grows.'',
      ''The design system implements a sophisticated color palette (#F9F2EC cream and #1E1E1E charcoal) with custom typography (NoirEtBlanc for headings, Montserrat for subheadings, Raleway for body text) that reinforces the brand's elegant, intentional aesthetic. Responsive layouts adapt seamlessly across devices, with carefully crafted grid systems that showcase imagery while maintaining readability. The shared Gallery component provides a unified visual experience across pages, while dedicated sections for Event Setup & Decor, Tablescapes, Florals, and Seasonal offerings allow visitors to explore specific services in depth. Interactive elements include smooth hover transitions, optimized Next.js Image components for fast loading, and strategic call-to-action placements that guide users toward booking inquiries.''],
    closingImage = createHeroImage
      ''/Elev8-Moments/work/closing%20image.png''
      ''Final Platform Experience'',
    externalLink = Some ''https://moments.elev8rwanda.com/'' \<rparr>"

definition workDetailsData :: "(string \<times> WorkDetail) list" where
  "workDetailsData = [
    (''corevia-financial-platform'', corevia_financial_platform),
    (''landscapo-architecture-platform'', landscapo_architecture_platform),
    (''stayli-vacation-rental-platform'', stayli_vacation_rental_platform),
    (''elev8-rwanda-website'', elev8_rwanda_website),
    (''elev8-moments-event-design'', elev8_moments_event_design)]"

subsection \<open>Objects: own keys and property lookup\<close>

text \<open>
  \<^verbatim>\<open>Object.keys\<close> and \<^verbatim>\<open>Object.values\<close> enumerate the own properties of an object:
  first the keys that are array indices (canonical decimal numerals below \<open>2^32 - 1\<close>),
  in ascending numeric order, then the other string keys in insertion order.
\<close>

definition is_digit :: "char \<Rightarrow> bool" where
  "is_digit c = (c \<in> set ''0123456789'')"

definition numeric_value :: "string \<Rightarrow> int" where
  "numeric_value k = foldl (\<lambda>n c. 10 * n + (of_char c - 48)) 0 k"

definition array_index :: "string \<Rightarrow> int option" where
  "array_index k =
     (if k \<noteq> [] \<and> list_all is_digit k \<and> (k = ''0'' \<or> hd k \<noteq> CHR ''0'') \<and>
         numeric_value k < 2 ^ 32 - 1
      then Some (numeric_value k) else None)"

definition own_entries :: "(string \<times> 'a) list \<Rightarrow> (string \<times> 'a) list" where
  "own_entries obj =
     sort_key (\<lambda>(k, v). the (array_index k)) (filter (\<lambda>(k, v). array_index k \<noteq> None) obj) @
     filter (\<lambda>(k, v). array_index k = None) obj"

definition Object_keys :: "(string \<times> 'a) list \<Rightarrow> string list" where
  "Object_keys obj = map fst (own_entries obj)"

definition Object_values :: "(string \<times> 'a) list \<Rightarrow> 'a list" where
  "Object_values obj = map snd (own_entries obj)"

text \<open>
  \<^verbatim>\<open>obj[key]\<close> reads the own property when there is one and otherwise follows the
  prototype chain. The prototype of an object literal is \<^verbatim>\<open>Object.prototype\<close>, which has
  the properties listed below (built-in functions, and the accessor \<^verbatim>\<open>__proto__\<close>, which
  yields the prototype itself); the chain ends there. The value read is the own value,
  the member of \<^verbatim>\<open>Object.prototype\<close> of that name, or \<^verbatim>\<open>undefined\<close>.
\<close>

definition Object_prototype_names :: "string list" where
  "Object_prototype_names =
     [''constructor'', ''hasOwnProperty'', ''isPrototypeOf'', ''propertyIsEnumerable'',
      ''toLocaleString'', ''toString'', ''valueOf'', ''__proto__'',
      ''__defineGetter__'', ''__defineSetter__'', ''__lookupGetter__'', ''__lookupSetter__'']"

datatype 'a property_value = Undefined | Own 'a | Inherited string

definition get_property :: "(string \<times> 'a) list \<Rightarrow> string \<Rightarrow> 'a property_value" where
  "get_property obj key =
     (case map_of obj key of
        Some v \<Rightarrow> Own v
      | None \<Rightarrow> if key \<in> set Object_prototype_names then Inherited key else Undefined)"

subsection \<open>Accessors\<close>

definition getAllWorks :: "WorkDetail list" where
  "getAllWorks = Object_values workDetailsData"

definition getWorksByCategory :: "Category \<Rightarrow> WorkDetail list" where
  "getWorksByCategory category' = filter (\<lambda>work. category work = category') getAllWorks"

definition getProductsData :: "WorkDetail list" where
  "getProductsData = getWorksByCategory Products"

definition getUIUXData :: "WorkDetail list" where
  "getUIUXData = getWorksByCategory Uiux"

definition get3DData :: "WorkDetail list" where
  "get3DData = getWorksByCategory ThreeD"

definition getWorkBySlug :: "string \<Rightarrow> WorkDetail property_value" where
  "getWorkBySlug slug = get_property workDetailsData slug"

definition getAllWorkSlugs :: "string list" where
  "getAllWorkSlugs = Object_keys workDetailsData"

definition worksData :: "WorkSummary list" where
  "worksData = map (\<lambda>work. \<lparr>
     summary_id = id_field work,
     summary_title = title work,
     summary_description = description work,
     summary_image = thumbnailImage work \<rparr>) getAllWorks"

subsection \<open>The module after it is loaded\<close>

text \<open>
  \<^verbatim>\<open>workDetailsData\<close> is an exported object that is not frozen, so its contents can change
  after the module is evaluated. The state of the module is what the two exported
  bindings hold: the present contents of the object \<^verbatim>\<open>workDetailsData\<close>, and the array
  \<^verbatim>\<open>worksData\<close>. Evaluating the module builds the literal and then evaluates the
  initialiser of \<^verbatim>\<open>worksData\<close>, \<^verbatim>\<open>getAllWorks().map(...)\<close>, on it, once.
\<close>

record module_state =
  catalog_object :: "(string \<times> WorkDetail) list"
  worksData_value :: "WorkSummary list"

definition load_module :: module_state where
  "load_module = \<lparr> catalog_object = workDetailsData, worksData_value = worksData \<rparr>"

text \<open>
  A call of \<^verbatim>\<open>getAllWorks()\<close> evaluates \<^verbatim>\<open>Object.values(workDetailsData)\<close> on the contents
  that the object has when the call is made, and changes nothing. A use of \<^verbatim>\<open>worksData\<close>
  reads the array.
\<close>

definition getAllWorks_in :: "module_state \<Rightarrow> WorkDetail list" where
  "getAllWorks_in st = Object_values (catalog_object st)"

text \<open>
  A change to the catalog (adding, replacing or deleting an entry, or assigning to a
  field of a work) is a function on the contents of the object. It leaves the array
  \<^verbatim>\<open>worksData\<close> alone: the entries of the array are objects of their own, whose fields are
  strings. \<^verbatim>\<open>delete workDetailsData[key]\<close> is one such change.
\<close>

definition change_catalog ::
  "((string \<times> WorkDetail) list \<Rightarrow> (string \<times> WorkDetail) list) \<Rightarrow> module_state \<Rightarrow> module_state" where
  "change_catalog f st = st\<lparr> catalog_object := f (catalog_object st) \<rparr>"

definition after_changes ::
  "((string \<times> WorkDetail) list \<Rightarrow> (string \<times> WorkDetail) list) list \<Rightarrow> module_state" where
  "after_changes fs = foldl (\<lambda>st f. change_catalog f st) load_module fs"

definition delete_property :: "(string \<times> 'a) list \<Rightarrow> string \<Rightarrow> (string \<times> 'a) list" where
  "delete_property obj key = filter (\<lambda>(k, v). k \<noteq> key) obj"

subsection \<open>Reading a separated string\<close>

text \<open>
  The entries of a string separated by a character, as \<^verbatim>\<open>String.prototype.split\<close> with a
  separator of one character yields them: the maximal runs without the separator, of
  which there is one more than there are separators.
\<close>

fun split_on :: "char \<Rightarrow> string \<Rightarrow> string list" where
  "split_on c [] = [[]]"
| "split_on c (x # xs) =
     (if x = c then [] # split_on c xs
      else (case split_on c xs of [] \<Rightarrow> [[x]] | e # es \<Rightarrow> (x # e) # es))"

section \<open>Properties\<close>

subsection \<open>The responsive variants\<close>

lemma split_on_nonempty: "split_on c xs \<noteq> []"
  by (induction xs) (auto split: list.splits)

lemma split_on_no_separator: "c \<notin> set xs \<Longrightarrow> split_on c xs = [xs]"
  by (induction xs) auto

lemma split_on_entry: "c \<notin> set xs \<Longrightarrow> split_on c (xs @ c # ys) = xs # split_on c ys"
  by (induction xs) auto

lemma length_split_on: "length (split_on c xs) = Suc (length (filter (\<lambda>x. x = c) xs))"
  by (induction xs) (auto split: list.splits simp: split_on_nonempty)

lemma generateSrcSet_joined:
  "generateSrcSet s =
     (s @ ''?scale-down-to=512 512w'') @ CHR '','' #
     (s @ ''?scale-down-to=1024 1024w'') @ CHR '','' #
     (s @ ''?scale-down-to=2048 2048w'') @ CHR '','' #
     (s @ ''?scale-down-to=4096 4096w'') @ CHR '','' #
     (s @ '' 4500w'')"
  by (simp add: generateSrcSet_def)

text \<open>
  C1. For every source, \<^verbatim>\<open>generateSrcSet\<close> is five entries with a comma
  between consecutive ones: the source with \<^verbatim>\<open>?scale-down-to=\<close> 512, 1024, 2048 and 4096,
  labelled 512w, 1024w, 2048w and 4096w, and then the source itself labelled 4500w. When
  the source contains no comma, the result read at its commas has exactly these five
  entries.
\<close>

theorem generateSrcSet_entries:
  "generateSrcSet s =
     (s @ ''?scale-down-to=512 512w'') @ '','' @
     (s @ ''?scale-down-to=1024 1024w'') @ '','' @
     (s @ ''?scale-down-to=2048 2048w'') @ '','' @
     (s @ ''?scale-down-to=4096 4096w'') @ '','' @
     (s @ '' 4500w'') \<and>
   (CHR '','' \<notin> set s \<longrightarrow>
      split_on (CHR '','') (generateSrcSet s) =
        [s @ ''?scale-down-to=512 512w'',
         s @ ''?scale-down-to=1024 1024w'',
         s @ ''?scale-down-to=2048 2048w'',
         s @ ''?scale-down-to=4096 4096w'',
         s @ '' 4500w''])"
proof (intro conjI impI)
  show "generateSrcSet s =
     (s @ ''?scale-down-to=512 512w'') @ '','' @
     (s @ ''?scale-down-to=1024 1024w'') @ '','' @
     (s @ ''?scale-down-to=2048 2048w'') @ '','' @
     (s @ ''?scale-down-to=4096 4096w'') @ '','' @
     (s @ '' 4500w'')"
    by (simp add: generateSrcSet_def)
next
  assume free: "CHR '','' \<notin> set s"
  have e1: "CHR '','' \<notin> set (s @ ''?scale-down-to=512 512w'')" using free by simp
  have e2: "CHR '','' \<notin> set (s @ ''?scale-down-to=1024 1024w'')" using free by simp
  have e3: "CHR '','' \<notin> set (s @ ''?scale-down-to=2048 2048w'')" using free by simp
  have e4: "CHR '','' \<notin> set (s @ ''?scale-down-to=4096 4096w'')" using free by simp
  have e5: "CHR '','' \<notin> set (s @ '' 4500w'')" using free by simp
  show "split_on (CHR '','') (generateSrcSet s) =
        [s @ ''?scale-down-to=512 512w'',
         s @ ''?scale-down-to=1024 1024w'',
         s @ ''?scale-down-to=2048 2048w'',
         s @ ''?scale-down-to=4096 4096w'',
         s @ '' 4500w'']"
    unfolding generateSrcSet_joined
    by (simp only: split_on_entry [OF e1] split_on_entry [OF e2] split_on_entry [OF e3]
        split_on_entry [OF e4] split_on_no_separator [OF e5])
qed

theorem generateSrcSet_entries_witness:
  "CHR '','' \<notin> set ''/Coreva/work/Hero_image.png'' \<and>
   split_on (CHR '','') (generateSrcSet ''/Coreva/work/Hero_image.png'') =
     [''/Coreva/work/Hero_image.png?scale-down-to=512 512w'',
      ''/Coreva/work/Hero_image.png?scale-down-to=1024 1024w'',
      ''/Coreva/work/Hero_image.png?scale-down-to=2048 2048w'',
      ''/Coreva/work/Hero_image.png?scale-down-to=4096 4096w'',
      ''/Coreva/work/Hero_image.png 4500w'']"
  using generateSrcSet_entries [of "''/Coreva/work/Hero_image.png''"] by simp

text \<open>
  A source with a comma in it: the result has nine commas, so ten entries, and none of
  them is the source with its parameter and label.
\<close>

theorem generateSrcSet_comma_counterexample:
  "split_on (CHR '','') (generateSrcSet ''a,b'') =
     [''a'', ''b?scale-down-to=512 512w'',
      ''a'', ''b?scale-down-to=1024 1024w'',
      ''a'', ''b?scale-down-to=2048 2048w'',
      ''a'', ''b?scale-down-to=4096 4096w'',
      ''a'', ''b 4500w''] \<and>
   length (split_on (CHR '','') (generateSrcSet ''a,b'')) \<noteq> 5"
  by (simp add: generateSrcSet_def)

text \<open>
  C2. For every source and alternative text, \<^verbatim>\<open>createHeroImage\<close> yields width 2400 and
  height 1600, and \<^verbatim>\<open>createSecondaryImage\<close> yields an image with neither field.
\<close>

theorem createHeroImage_createSecondaryImage_dimensions:
  "width (createHeroImage s a) = Some (Finite 2400) \<and>
   height (createHeroImage s a) = Some (Finite 1600) \<and>
   width (createSecondaryImage s a) = None \<and>
   height (createSecondaryImage s a) = None"
  by (simp add: createHeroImage_def createSecondaryImage_def createWorkImage_def spread_truthy_def)

subsection \<open>The image builder\<close>

text \<open>
  C7. For every source, alternative text and optional width and height, the image built
  by \<^verbatim>\<open>createWorkImage\<close> has the given source, the responsive variants of that
  source, the given alternative text and the fixed \<^verbatim>\<open>sizes\<close>; it has a width exactly when
  the width argument is given and truthy, and then it is that argument, and likewise for
  the height. In particular an absent or zero width or height yields no such field.
\<close>

theorem createWorkImage_fields:
  "src (createWorkImage s a w h) = s \<and>
   srcSet (createWorkImage s a w h) = Some (generateSrcSet s) \<and>
   alt (createWorkImage s a w h) = a \<and>
   sizes (createWorkImage s a w h) = Some ''calc(100vw - 24px)'' \<and>
   width (createWorkImage s a w h) = (if \<exists>n. w = Some n \<and> truthy n then w else None) \<and>
   height (createWorkImage s a w h) = (if \<exists>n. h = Some n \<and> truthy n then h else None) \<and>
   width (createWorkImage s a None h) = None \<and>
   width (createWorkImage s a (Some (Finite 0)) h) = None \<and>
   height (createWorkImage s a w None) = None \<and>
   height (createWorkImage s a w (Some (Finite 0))) = None"
  by (simp add: createWorkImage_def spread_truthy_def split: option.splits)

subsection \<open>The catalog as enumerated\<close>

text \<open>
  No key of the catalog is an array index, so \<^verbatim>\<open>Object.keys\<close> and \<^verbatim>\<open>Object.values\<close>
  enumerate it in the order of the literal; and the keys are distinct, so the literal is
  an object as modelled.
\<close>

lemma array_index_not_digit: "\<not> is_digit c \<Longrightarrow> array_index (c # cs) = None"
  by (simp add: array_index_def)

lemma own_entries_no_index:
  "list_all (\<lambda>(k, v). array_index k = None) obj \<Longrightarrow> own_entries obj = obj"
proof -
  assume h: "list_all (\<lambda>(k, v). array_index k = None) obj"
  then have keep: "filter (\<lambda>(k, v). array_index k = None) obj = obj"
    by (simp add: list_all_iff split_def)
  from h have drop: "filter (\<lambda>(k, v). array_index k \<noteq> None) obj = []"
    by (auto simp: list_all_iff filter_empty_conv)
  show ?thesis unfolding own_entries_def keep drop by simp
qed

lemma workDetailsData_keys:
  "map fst workDetailsData =
     [''corevia-financial-platform'', ''landscapo-architecture-platform'',
      ''stayli-vacation-rental-platform'', ''elev8-rwanda-website'',
      ''elev8-moments-event-design'']"
  by (simp add: workDetailsData_def)

lemma workDetailsData_values:
  "map snd workDetailsData =
     [corevia_financial_platform, landscapo_architecture_platform,
      stayli_vacation_rental_platform, elev8_rwanda_website, elev8_moments_event_design]"
  by (simp add: workDetailsData_def)

lemma workDetailsData_distinct_keys: "distinct (map fst workDetailsData)"
  unfolding workDetailsData_keys by simp

lemma workDetailsData_no_index: "list_all (\<lambda>(k, v). array_index k = None) workDetailsData"
  by (simp add: workDetailsData_def array_index_not_digit is_digit_def)

lemma own_entries_workDetailsData: "own_entries workDetailsData = workDetailsData"
  by (rule own_entries_no_index [OF workDetailsData_no_index])

lemma getAllWorks_catalog:
  "getAllWorks =
     [corevia_financial_platform, landscapo_architecture_platform,
      stayli_vacation_rental_platform, elev8_rwanda_website, elev8_moments_event_design]"
  by (simp only: getAllWorks_def Object_values_def own_entries_workDetailsData workDetailsData_values)

lemma getAllWorkSlugs_catalog:
  "getAllWorkSlugs =
     [''corevia-financial-platform'', ''landscapo-architecture-platform'',
      ''stayli-vacation-rental-platform'', ''elev8-rwanda-website'',
      ''elev8-moments-event-design'']"
  by (simp only: getAllWorkSlugs_def Object_keys_def own_entries_workDetailsData workDetailsData_keys)

lemma corevia_fields:
  "id_field corevia_financial_platform = ''corevia-financial-platform''"
  "category corevia_financial_platform = Products"
  by (simp_all add: corevia_financial_platform_def)

lemma landscapo_fields:
  "id_field landscapo_architecture_platform = ''landscapo-architecture-platform''"
  "category landscapo_architecture_platform = Products"
  by (simp_all add: landscapo_architecture_platform_def)

lemma stayli_fields:
  "id_field stayli_vacation_rental_platform = ''stayli-vacation-rental-platform''"
  "category stayli_vacation_rental_platform = Products"
  "thumbnailImage stayli_vacation_rental_platform =
     ''https://cdn.prod.website-files.com/6811ad3e11282304843a1ca2/6811ad3e11282304843a1e18_stayli-black-logo.svg''"
  by (simp_all add: stayli_vacation_rental_platform_def)

lemma elev8_rwanda_fields:
  "id_field elev8_rwanda_website = ''elev8-rwanda-website''"
  "category elev8_rwanda_website = Products"
  by (simp_all add: elev8_rwanda_website_def)

lemma elev8_moments_fields:
  "id_field elev8_moments_event_design = ''elev8-moments-event-design''"
  "category elev8_moments_event_design = Products"
  by (simp_all add: elev8_moments_event_design_def)

lemmas catalog_ids = corevia_fields(1) landscapo_fields(1) stayli_fields(1)
  elev8_rwanda_fields(1) elev8_moments_fields(1)

lemmas catalog_categories = corevia_fields(2) landscapo_fields(2) stayli_fields(2)
  elev8_rwanda_fields(2) elev8_moments_fields(2)

text \<open>
  Every image of the catalog is built by \<^verbatim>\<open>createHeroImage\<close> or
  \<^verbatim>\<open>createSecondaryImage\<close>.
\<close>

lemma builder_dimensions:
  "(width (createHeroImage s a) = None) = (height (createHeroImage s a) = None)"
  "(width (createSecondaryImage s a) = None) = (height (createSecondaryImage s a) = None)"
  by (simp_all add: createHeroImage_def createSecondaryImage_def createWorkImage_def spread_truthy_def)

lemma corevia_images:
  "\<exists>s a. heroImage corevia_financial_platform = createHeroImage s a"
  "\<exists>s a. secondaryImage corevia_financial_platform = createSecondaryImage s a"
  "\<exists>s a. processImage corevia_financial_platform = createSecondaryImage s a"
  "\<exists>s a. closingImage corevia_financial_platform = createHeroImage s a"
  unfolding corevia_financial_platform_def by (simp_all only: WorkDetail.simps) blast+

lemma landscapo_images:
  "\<exists>s a. heroImage landscapo_architecture_platform = createHeroImage s a"
  "\<exists>s a. secondaryImage landscapo_architecture_platform = createSecondaryImage s a"
  "\<exists>s a. processImage landscapo_architecture_platform = createSecondaryImage s a"
  "\<exists>s a. closingImage landscapo_architecture_platform = createHeroImage s a"
  unfolding landscapo_architecture_platform_def by (simp_all only: WorkDetail.simps) blast+

lemma stayli_images:
  "\<exists>s a. heroImage stayli_vacation_rental_platform = createHeroImage s a"
  "\<exists>s a. secondaryImage stayli_vacation_rental_platform = createSecondaryImage s a"
  "\<exists>s a. processImage stayli_vacation_rental_platform = createSecondaryImage s a"
  "\<exists>s a. closingImage stayli_vacation_rental_platform = createHeroImage s a"
  unfolding stayli_vacation_rental_platform_def by (simp_all only: WorkDetail.simps) blast+

lemma elev8_rwanda_images:
  "\<exists>s a. heroImage elev8_rwanda_website = createHeroImage s a"
  "\<exists>s a. secondaryImage elev8_rwanda_website = createSecondaryImage s a"
  "\<exists>s a. processImage elev8_rwanda_website = createSecondaryImage s a"
  "\<exists>s a. closingImage elev8_rwanda_website = createHeroImage s a"
  unfolding elev8_rwanda_website_def by (simp_all only: WorkDetail.simps) blast+

lemma elev8_moments_images:
  "\<exists>s a. heroImage elev8_moments_event_design = createHeroImage s a"
  "\<exists>s a. secondaryImage elev8_moments_event_design = createSecondaryImage s a"
  "\<exists>s a. processImage elev8_moments_event_design = createSecondaryImage s a"
  "\<exists>s a. closingImage elev8_moments_event_design = createHeroImage s a"
  unfolding elev8_moments_event_design_def by (simp_all only: WorkDetail.simps) blast+

lemma catalog_images:
  assumes "work \<in> set getAllWorks"
  shows "(\<exists>s a. heroImage work = createHeroImage s a) \<and>
     (\<exists>s a. secondaryImage work = createSecondaryImage s a) \<and>
     (\<exists>s a. processImage work = createSecondaryImage s a) \<and>
     (\<exists>s a. closingImage work = createHeroImage s a)"
proof -
  from assms consider
      "work = corevia_financial_platform" | "work = landscapo_architecture_platform"
    | "work = stayli_vacation_rental_platform" | "work = elev8_rwanda_website"
    | "work = elev8_moments_event_design"
    unfolding getAllWorks_catalog by auto
  then show ?thesis
  proof cases
    case 1 then show ?thesis by (simp only: corevia_images simp_thms)
  next
    case 2 then show ?thesis by (simp only: landscapo_images simp_thms)
  next
    case 3 then show ?thesis by (simp only: stayli_images simp_thms)
  next
    case 4 then show ?thesis by (simp only: elev8_rwanda_images simp_thms)
  next
    case 5 then show ?thesis by (simp only: elev8_moments_images simp_thms)
  qed
qed

lemma catalog_dimensions:
  "\<forall>work \<in> set getAllWorks.
      \<forall>i \<in> {heroImage work, secondaryImage work, processImage work, closingImage work}.
        (width i = None) = (height i = None)"
proof (intro ballI)
  fix work i
  assume "work \<in> set getAllWorks"
    and i: "i \<in> {heroImage work, secondaryImage work, processImage work, closingImage work}"
  from catalog_images [OF this(1)] i
  show "(width i = None) = (height i = None)"
    using builder_dimensions by auto
qed

text \<open>
  C10. \<^verbatim>\<open>createWorkImage\<close> decides on the width and on the height independently: a
  truthy width with an absent or zero height gives an image with a width and no height,
  and the other way round, whatever the source and the alternative text. Every image of
  the catalog, however, has both dimensions or neither.
\<close>

theorem createWorkImage_one_dimension:
  "width (createWorkImage s a (Some (Finite 2400)) None) = Some (Finite 2400) \<and>
   height (createWorkImage s a (Some (Finite 2400)) None) = None \<and>
   width (createWorkImage s a (Some (Finite 2400)) (Some (Finite 0))) = Some (Finite 2400) \<and>
   height (createWorkImage s a (Some (Finite 2400)) (Some (Finite 0))) = None \<and>
   width (createWorkImage s a None (Some (Finite 1600))) = None \<and>
   height (createWorkImage s a None (Some (Finite 1600))) = Some (Finite 1600) \<and>
   width (createWorkImage s a (Some (Finite 0)) (Some (Finite 1600))) = None \<and>
   height (createWorkImage s a (Some (Finite 0)) (Some (Finite 1600))) = Some (Finite 1600) \<and>
   (\<forall>work \<in> set getAllWorks.
      \<forall>i \<in> {heroImage work, secondaryImage work, processImage work, closingImage work}.
        (width i = None) = (height i = None))"
proof -
  have builder:
    "width (createWorkImage s a (Some (Finite 2400)) None) = Some (Finite 2400) \<and>
     height (createWorkImage s a (Some (Finite 2400)) None) = None \<and>
     width (createWorkImage s a (Some (Finite 2400)) (Some (Finite 0))) = Some (Finite 2400) \<and>
     height (createWorkImage s a (Some (Finite 2400)) (Some (Finite 0))) = None \<and>
     width (createWorkImage s a None (Some (Finite 1600))) = None \<and>
     height (createWorkImage s a None (Some (Finite 1600))) = Some (Finite 1600) \<and>
     width (createWorkImage s a (Some (Finite 0)) (Some (Finite 1600))) = None \<and>
     height (createWorkImage s a (Some (Finite 0)) (Some (Finite 1600))) = Some (Finite 1600)"
    by (simp add: createWorkImage_def spread_truthy_def)
  from builder catalog_dimensions show ?thesis by (intro conjI) (elim conjE, assumption)+
qed

theorem createWorkImage_one_dimension_witness:
  "stayli_vacation_rental_platform \<in> set getAllWorks \<and>
   secondaryImage stayli_vacation_rental_platform \<in>
     {heroImage stayli_vacation_rental_platform, secondaryImage stayli_vacation_rental_platform,
      processImage stayli_vacation_rental_platform, closingImage stayli_vacation_rental_platform} \<and>
   (width (secondaryImage stayli_vacation_rental_platform) = None) =
     (height (secondaryImage stayli_vacation_rental_platform) = None)"
  using createWorkImage_one_dimension [of "[]" "[]"] by (simp add: getAllWorks_catalog)

subsection \<open>Lookup by slug\<close>

text \<open>
  The lookup on the catalog: a key of the catalog yields the work stored under it, whose
  \<^verbatim>\<open>id\<close> is the key; a string that is neither a key nor a property name of
  \<^verbatim>\<open>Object.prototype\<close> yields \<^verbatim>\<open>undefined\<close>.
\<close>

lemma map_of_workDetailsData:
  "map_of workDetailsData key =
     (if key = ''corevia-financial-platform'' then Some corevia_financial_platform
      else if key = ''landscapo-architecture-platform'' then Some landscapo_architecture_platform
      else if key = ''stayli-vacation-rental-platform'' then Some stayli_vacation_rental_platform
      else if key = ''elev8-rwanda-website'' then Some elev8_rwanda_website
      else if key = ''elev8-moments-event-design'' then Some elev8_moments_event_design
      else None)"
  by (simp add: workDetailsData_def)

lemma getWorkBySlug_present:
  assumes "(key, work) \<in> set workDetailsData"
  shows "getWorkBySlug key = Own work \<and> id_field work = key"
proof -
  from assms have "map_of workDetailsData key = Some work"
    by (rule map_of_is_SomeI [OF workDetailsData_distinct_keys])
  moreover from assms have "id_field work = key"
    by (auto simp: workDetailsData_def catalog_ids)
  ultimately show ?thesis by (simp add: getWorkBySlug_def get_property_def)
qed

lemma getWorkBySlug_absent:
  assumes "key \<notin> fst ` set workDetailsData" and "key \<notin> set Object_prototype_names"
  shows "getWorkBySlug key = Undefined"
proof -
  from assms(1) have "map_of workDetailsData key = None"
    by (simp add: map_of_eq_None_iff)
  with assms(2) show ?thesis by (simp add: getWorkBySlug_def get_property_def)
qed

lemma getWorkBySlug_does_not_exist: "getWorkBySlug ''does-not-exist'' = Undefined"
  by (simp add: getWorkBySlug_def get_property_def map_of_workDetailsData Object_prototype_names_def)

text \<open>
  C3. \<^verbatim>\<open>getWorkBySlug\<close> is declared to return a work or \<^verbatim>\<open>undefined\<close>. The string
  \<^verbatim>\<open>constructor\<close> is not a key of the catalog, yet the lookup does not yield
  \<^verbatim>\<open>undefined\<close> for it: the index expression finds the property of that name on
  \<^verbatim>\<open>Object.prototype\<close>.
\<close>

theorem getWorkBySlug_constructor:
  "''constructor'' \<notin> set getAllWorkSlugs \<and>
   getWorkBySlug ''constructor'' = Inherited ''constructor'' \<and>
   getWorkBySlug ''constructor'' \<noteq> Undefined"
  by (simp add: getAllWorkSlugs_catalog getWorkBySlug_def get_property_def map_of_workDetailsData
      Object_prototype_names_def)

subsection \<open>Listing the catalog\<close>

text \<open>
  C4. \<^verbatim>\<open>getAllWorks\<close> has as many elements as the catalog has keys, and
  \<^verbatim>\<open>getAllWorkSlugs\<close> is the sequence of the \<^verbatim>\<open>id\<close> fields of \<^verbatim>\<open>getAllWorks\<close>: every work
  is stored under its own \<^verbatim>\<open>id\<close>, and both accessors enumerate in the same order.
\<close>

theorem getAllWorks_length_and_slugs:
  "length getAllWorks = card (dom (map_of workDetailsData)) \<and>
   length getAllWorks = length getAllWorkSlugs \<and>
   getAllWorkSlugs = map id_field getAllWorks \<and>
   map fst workDetailsData = map (\<lambda>(key, work). id_field work) workDetailsData"
proof -
  have "card (dom (map_of workDetailsData)) = length (map fst workDetailsData)"
    by (simp only: dom_map_of_conv_image_fst set_map [symmetric]
        distinct_card [OF workDetailsData_distinct_keys])
  then have "length getAllWorks = card (dom (map_of workDetailsData))"
    by (simp add: getAllWorks_catalog workDetailsData_keys)
  moreover have "length getAllWorks = length getAllWorkSlugs"
    by (simp add: getAllWorks_catalog getAllWorkSlugs_catalog)
  moreover have "getAllWorkSlugs = map id_field getAllWorks"
    by (simp add: getAllWorks_catalog getAllWorkSlugs_catalog catalog_ids)
  moreover have "map fst workDetailsData = map (\<lambda>(key, work). id_field work) workDetailsData"
    by (simp add: workDetailsData_def catalog_ids)
  ultimately show ?thesis by (intro conjI)
qed

lemma getWorksByCategory_products: "getWorksByCategory Products = getAllWorks"
  by (simp add: getWorksByCategory_def getAllWorks_catalog catalog_categories)

lemma getWorksByCategory_uiux: "getWorksByCategory Uiux = []"
  by (simp add: getWorksByCategory_def getAllWorks_catalog catalog_categories)

lemma getWorksByCategory_3d: "getWorksByCategory ThreeD = []"
  by (simp add: getWorksByCategory_def getAllWorks_catalog catalog_categories)

text \<open>
  C5. Every element of \<^verbatim>\<open>getWorksByCategory\<close> of a category has that category, for each
  of the three categories; and the three lists \<^verbatim>\<open>getProductsData\<close>, \<^verbatim>\<open>getUIUXData\<close> and
  \<^verbatim>\<open>get3DData\<close> are pairwise disjoint and together have the elements of \<^verbatim>\<open>getAllWorks\<close>.
\<close>

theorem getWorksByCategory_partition:
  "(\<forall>work \<in> set (getWorksByCategory c). category work = c) \<and>
   set getProductsData \<inter> set getUIUXData = {} \<and>
   set getProductsData \<inter> set get3DData = {} \<and>
   set getUIUXData \<inter> set get3DData = {} \<and>
   set getProductsData \<union> set getUIUXData \<union> set get3DData = set getAllWorks"
proof (intro conjI)
  show "\<forall>work \<in> set (getWorksByCategory c). category work = c"
    by (simp add: getWorksByCategory_def)
  show "set getProductsData \<inter> set getUIUXData = {}"
    by (auto simp: getProductsData_def getUIUXData_def getWorksByCategory_def)
  show "set getProductsData \<inter> set get3DData = {}"
    by (auto simp: getProductsData_def get3DData_def getWorksByCategory_def)
  show "set getUIUXData \<inter> set get3DData = {}"
    by (auto simp: getUIUXData_def get3DData_def getWorksByCategory_def)
  show "set getProductsData \<union> set getUIUXData \<union> set get3DData = set getAllWorks"
  proof
    show "set getProductsData \<union> set getUIUXData \<union> set get3DData \<subseteq> set getAllWorks"
      by (auto simp: getProductsData_def getUIUXData_def get3DData_def getWorksByCategory_def)
    show "set getAllWorks \<subseteq> set getProductsData \<union> set getUIUXData \<union> set get3DData"
    proof
      fix work assume "work \<in> set getAllWorks"
      then show "work \<in> set getProductsData \<union> set getUIUXData \<union> set get3DData"
        by (cases "category work")
          (simp_all add: getProductsData_def getUIUXData_def get3DData_def getWorksByCategory_def)
    qed
  qed
qed

theorem getWorksByCategory_partition_witness:
  "corevia_financial_platform \<in> set (getWorksByCategory Products) \<and>
   category corevia_financial_platform = Products"
  using getWorksByCategory_partition [of Products]
  by (simp add: getWorksByCategory_products getAllWorks_catalog)

text \<open>
  C6. For every category, \<^verbatim>\<open>getWorksByCategory\<close> is the subsequence of \<^verbatim>\<open>getAllWorks\<close>
  of the works of that category, in the order of \<^verbatim>\<open>getAllWorks\<close>: it is a subsequence,
  all its elements have the category, and every subsequence of \<^verbatim>\<open>getAllWorks\<close> whose
  elements all have the category is a subsequence of it. When no work has the category,
  it is the empty sequence.
\<close>

theorem getWorksByCategory_subsequence:
  "getWorksByCategory c = filter (\<lambda>work. category work = c) getAllWorks \<and>
   subseq (getWorksByCategory c) getAllWorks \<and>
   (\<forall>work \<in> set (getWorksByCategory c). category work = c) \<and>
   (\<forall>ws. subseq ws getAllWorks \<and> (\<forall>work \<in> set ws. category work = c)
      \<longrightarrow> subseq ws (getWorksByCategory c)) \<and>
   ((\<forall>work \<in> set getAllWorks. category work \<noteq> c) \<longrightarrow> getWorksByCategory c = [])"
proof (intro conjI allI impI)
  show "getWorksByCategory c = filter (\<lambda>work. category work = c) getAllWorks"
    by (simp add: getWorksByCategory_def)
  show "subseq (getWorksByCategory c) getAllWorks"
    by (simp add: getWorksByCategory_def)
  show "\<forall>work \<in> set (getWorksByCategory c). category work = c"
    by (simp add: getWorksByCategory_def)
next
  fix ws
  assume h: "subseq ws getAllWorks \<and> (\<forall>work \<in> set ws. category work = c)"
  then have "filter (\<lambda>work. category work = c) ws = ws"
    by (simp add: filter_id_conv)
  moreover from h have
    "subseq (filter (\<lambda>work. category work = c) ws) (filter (\<lambda>work. category work = c) getAllWorks)"
    by (intro subseq_filter) simp
  ultimately show "subseq ws (getWorksByCategory c)"
    by (simp add: getWorksByCategory_def)
next
  assume "\<forall>work \<in> set getAllWorks. category work \<noteq> c"
  then show "getWorksByCategory c = []"
    by (simp add: getWorksByCategory_def filter_empty_conv)
qed

theorem getWorksByCategory_subsequence_witness:
  "list_all (\<lambda>work. category work \<noteq> Uiux) getAllWorks \<and>
   getWorksByCategory Uiux = [] \<and>
   subseq [corevia_financial_platform] getAllWorks \<and>
   list_all (\<lambda>work. category work = Products) [corevia_financial_platform] \<and>
   subseq [corevia_financial_platform] (getWorksByCategory Products)"
proof -
  have none: "\<forall>work \<in> set getAllWorks. category work \<noteq> Uiux"
    by (simp add: getAllWorks_catalog catalog_categories)
  have sub: "subseq [corevia_financial_platform] getAllWorks"
    by (simp add: getAllWorks_catalog)
  have cat: "\<forall>work \<in> set [corevia_financial_platform]. category work = Products"
    by (simp add: catalog_categories)
  from getWorksByCategory_subsequence [of Uiux] none
  have empty: "getWorksByCategory Uiux = []" by blast
  from getWorksByCategory_subsequence [of Products] sub cat
  have "subseq [corevia_financial_platform] (getWorksByCategory Products)" by blast
  with none sub cat empty show ?thesis by (simp add: list_all_iff)
qed

lemma worksData_value_changes:
  "worksData_value (foldl (\<lambda>st f. change_catalog f st) st fs) = worksData_value st"
  by (induction fs arbitrary: st) (simp_all add: change_catalog_def)

lemma catalog_object_changes:
  "catalog_object (foldl (\<lambda>st f. change_catalog f st) st fs) =
     foldl (\<lambda>obj f. f obj) (catalog_object st) fs"
  by (induction fs arbitrary: st) (simp_all add: change_catalog_def)

lemma getAllWorks_in_without_stayli:
  "getAllWorks_in
       (after_changes [\<lambda>obj. delete_property obj ''stayli-vacation-rental-platform'']) =
     [corevia_financial_platform, landscapo_architecture_platform,
      elev8_rwanda_website, elev8_moments_event_design]"
proof -
  have deleted: "delete_property workDetailsData ''stayli-vacation-rental-platform'' =
      [(''corevia-financial-platform'', corevia_financial_platform),
       (''landscapo-architecture-platform'', landscapo_architecture_platform),
       (''elev8-rwanda-website'', elev8_rwanda_website),
       (''elev8-moments-event-design'', elev8_moments_event_design)]"
    by (simp add: delete_property_def workDetailsData_def)
  have "own_entries (delete_property workDetailsData ''stayli-vacation-rental-platform'') =
      delete_property workDetailsData ''stayli-vacation-rental-platform''"
    unfolding deleted
    by (rule own_entries_no_index) (simp add: array_index_not_digit is_digit_def)
  then show ?thesis
    by (simp add: getAllWorks_in_def after_changes_def change_catalog_def load_module_def
        Object_values_def deleted)
qed

text \<open>
  C8. \<^verbatim>\<open>worksData\<close> is the projection of every entry of the catalog, in the order of the
  catalog, to four fields: the \<^verbatim>\<open>id\<close>, \<^verbatim>\<open>title\<close>, \<^verbatim>\<open>description\<close> and \<^verbatim>\<open>thumbnailImage\<close>
  of the work; and the entry with the \<^verbatim>\<open>id\<close> \<^verbatim>\<open>stayli-vacation-rental-platform\<close> has the
  thumbnail of the work of that \<^verbatim>\<open>id\<close> as its image. It is computed once, when the
  module is loaded, and not at each use: whatever changes the catalog undergoes
  afterwards, \<^verbatim>\<open>worksData\<close> is still the value computed at load, while \<^verbatim>\<open>getAllWorks()\<close>
  lists the catalog as it is when called. After
  \<^verbatim>\<open>delete workDetailsData['stayli-vacation-rental-platform']\<close>, for one, \<^verbatim>\<open>getAllWorks()\<close>
  has four works and \<^verbatim>\<open>worksData\<close> is not their projection.
\<close>

theorem worksData_projection:
  "length worksData = length getAllWorks \<and>
   map summary_id worksData = map id_field getAllWorks \<and>
   map summary_title worksData = map title getAllWorks \<and>
   map summary_description worksData = map description getAllWorks \<and>
   map summary_image worksData = map thumbnailImage getAllWorks \<and>
   map summary_id worksData = getAllWorkSlugs \<and>
   stayli_vacation_rental_platform \<in> set getAllWorks \<and>
   id_field stayli_vacation_rental_platform = ''stayli-vacation-rental-platform'' \<and>
   map_option summary_image
       (find (\<lambda>s. summary_id s = ''stayli-vacation-rental-platform'') worksData) =
     Some (thumbnailImage stayli_vacation_rental_platform) \<and>
   getAllWorks_in load_module = getAllWorks \<and>
   worksData_value load_module = worksData \<and>
   worksData_value load_module =
     map (\<lambda>work. \<lparr>
       summary_id = id_field work,
       summary_title = title work,
       summary_description = description work,
       summary_image = thumbnailImage work \<rparr>) (getAllWorks_in load_module) \<and>
   (\<forall>fs. worksData_value (after_changes fs) = worksData_value load_module) \<and>
   (\<forall>fs. getAllWorks_in (after_changes fs) =
      Object_values (foldl (\<lambda>obj f. f obj) workDetailsData fs)) \<and>
   getAllWorks_in
       (after_changes [\<lambda>obj. delete_property obj ''stayli-vacation-rental-platform'']) =
     [corevia_financial_platform, landscapo_architecture_platform,
      elev8_rwanda_website, elev8_moments_event_design] \<and>
   worksData_value
       (after_changes [\<lambda>obj. delete_property obj ''stayli-vacation-rental-platform'']) \<noteq>
     map (\<lambda>work. \<lparr>
       summary_id = id_field work,
       summary_title = title work,
       summary_description = description work,
       summary_image = thumbnailImage work \<rparr>)
       (getAllWorks_in
         (after_changes [\<lambda>obj. delete_property obj ''stayli-vacation-rental-platform'']))"
proof -
  have proj:
    "length worksData = length getAllWorks \<and>
     map summary_id worksData = map id_field getAllWorks \<and>
     map summary_title worksData = map title getAllWorks \<and>
     map summary_description worksData = map description getAllWorks \<and>
     map summary_image worksData = map thumbnailImage getAllWorks"
    by (simp add: worksData_def comp_def)
  have slugs: "map summary_id worksData = getAllWorkSlugs"
    by (simp add: worksData_def comp_def getAllWorks_catalog getAllWorkSlugs_catalog catalog_ids)
  have lookup: "stayli_vacation_rental_platform \<in> set getAllWorks \<and>
     id_field stayli_vacation_rental_platform = ''stayli-vacation-rental-platform''"
    by (simp add: getAllWorks_catalog catalog_ids)
  have found: "map_option summary_image
       (find (\<lambda>s. summary_id s = ''stayli-vacation-rental-platform'') worksData) =
     Some (thumbnailImage stayli_vacation_rental_platform)"
    by (simp add: worksData_def getAllWorks_catalog catalog_ids)
  have at_load: "getAllWorks_in load_module = getAllWorks"
    by (simp add: getAllWorks_in_def load_module_def getAllWorks_def)
  have stored: "worksData_value load_module = worksData"
    by (simp add: load_module_def)
  have initialised: "worksData_value load_module =
     map (\<lambda>work. \<lparr>
       summary_id = id_field work,
       summary_title = title work,
       summary_description = description work,
       summary_image = thumbnailImage work \<rparr>) (getAllWorks_in load_module)"
    unfolding at_load by (simp add: load_module_def worksData_def)
  have once: "\<forall>fs. worksData_value (after_changes fs) = worksData_value load_module"
    by (simp add: after_changes_def worksData_value_changes)
  have each_call: "\<forall>fs. getAllWorks_in (after_changes fs) =
      Object_values (foldl (\<lambda>obj f. f obj) workDetailsData fs)"
    by (simp add: getAllWorks_in_def after_changes_def catalog_object_changes load_module_def)
  have "length (worksData_value
       (after_changes [\<lambda>obj. delete_property obj ''stayli-vacation-rental-platform''])) = 5"
    using once by (simp add: load_module_def worksData_def getAllWorks_catalog)
  then have differs: "worksData_value
       (after_changes [\<lambda>obj. delete_property obj ''stayli-vacation-rental-platform'']) \<noteq>
     map (\<lambda>work. \<lparr>
       summary_id = id_field work,
       summary_title = title work,
       summary_description = description work,
       summary_image = thumbnailImage work \<rparr>)
       (getAllWorks_in
         (after_changes [\<lambda>obj. delete_property obj ''stayli-vacation-rental-platform'']))"
    unfolding getAllWorks_in_without_stayli by auto
  from proj slugs lookup found at_load stored initialised once each_call
    getAllWorks_in_without_stayli differs
  show ?thesis by (intro conjI) (elim conjE, assumption)+
qed

text \<open>
  C9. The catalog has five works and each has the category \<^verbatim>\<open>products\<close>, so
  \<^verbatim>\<open>getProductsData\<close> is all of them in the order of the catalog, and \<^verbatim>\<open>getUIUXData\<close> and
  \<^verbatim>\<open>get3DData\<close> are empty.
\<close>

theorem catalog_all_products:
  "length getAllWorks = 5 \<and>
   list_all (\<lambda>work. category work = Products) getAllWorks \<and>
   getProductsData = getAllWorks \<and>
   getProductsData =
     [corevia_financial_platform, landscapo_architecture_platform,
      stayli_vacation_rental_platform, elev8_rwanda_website, elev8_moments_event_design] \<and>
   getUIUXData = [] \<and>
   get3DData = []"
  by (simp add: getProductsData_def getUIUXData_def get3DData_def getWorksByCategory_products
      getWorksByCategory_uiux getWorksByCategory_3d getAllWorks_catalog catalog_categories)

end
